theory Spec2Isabelle
  imports Complex_Main
begin

section \<open>The JavaScript values the quotation maker computes with\<close>

subsection \<open>Strings\<close>

text \<open>
  A JavaScript string is a sequence of UTF-16 code units. The model uses \<open>string\<close>
  (a list of 8-bit characters) and reads each character as the code unit of the same
  number, so it covers the strings whose code units are below 256 (Latin-1). Of the
  characters ECMAScript counts as white space or line terminators, these are the ones
  in that range: TAB, LF, VT, FF, CR, SPACE and NO-BREAK SPACE.
\<close>

definition isWhiteSpace :: "char \<Rightarrow> bool" where
  "isWhiteSpace c \<longleftrightarrow> of_char c \<in> {9, 10, 11, 12, 13, 32, 160 :: nat}"

definition trimStart :: "string \<Rightarrow> string" where
  "trimStart s = dropWhile isWhiteSpace s"

definition trim :: "string \<Rightarrow> string" where
  "trim s = rev (dropWhile isWhiteSpace (rev (dropWhile isWhiteSpace s)))"

definition startsWith :: "string \<Rightarrow> string \<Rightarrow> bool" where
  "startsWith s p \<longleftrightarrow> take (length p) s = p"

definition substring :: "string \<Rightarrow> nat \<Rightarrow> string" where
  "substring s start = drop start s"

text \<open>\<open>padStart\<close> with a one-character filler: a string already long enough is returned as it is.\<close>

definition padStart :: "nat \<Rightarrow> char \<Rightarrow> string \<Rightarrow> string" where
  "padStart targetLength c s = replicate (targetLength - length s) c @ s"

definition isDigit :: "char \<Rightarrow> bool" where
  "isDigit c \<longleftrightarrow> 48 \<le> (of_char c :: int) \<and> (of_char c :: int) \<le> 57"

definition digitValue :: "char \<Rightarrow> int" where
  "digitValue c = of_char c - 48"

definition digitChar :: "int \<Rightarrow> char" where
  "digitChar d = char_of (48 + d)"

text \<open>
  The decimal numeral of an integer that is not negative, most significant digit first
  (magnitudes are kept in \<open>int\<close>: they reach \<open>2 ^ 1024\<close>).
\<close>

function decimal :: "int \<Rightarrow> string" where
  "decimal n = (if n < 10 then [digitChar n] else decimal (n div 10) @ [digitChar (n mod 10)])"
  by pat_completeness auto
termination
  by (relation "measure nat") auto

declare decimal.simps [simp del]

text \<open>The value of a string of decimal digits.\<close>

definition digitsValue :: "string \<Rightarrow> int" where
  "digitsValue Z = foldl (\<lambda>acc c. acc * 10 + digitValue c) 0 Z"

subsection \<open>Numbers that hold integers\<close>

text \<open>
  A JavaScript number is an IEEE 754 binary64 value. The numbering code only ever holds
  integers, infinities and NaN in its numbers, so the model is a datatype of exactly
  those: \<open>Num v\<close> is the double whose value is the integer \<open>v\<close> (the two zeros are not
  distinguished: the code never prints or divides by a zero it parsed).
  \<open>roundDouble\<close> is ECMAScript's conversion of a mathematical integer to the nearest
  double, ties to the even significand, overflowing to an infinity: every integer of
  magnitude up to \<open>2 ^ 53\<close> is a double, beyond that only 53 significant bits are kept.
\<close>

datatype number = NaN | PosInfinity | NegInfinity | Num int

function bitLength :: "int \<Rightarrow> nat" where
  "bitLength n = (if n \<le> 0 then 0 else Suc (bitLength (n div 2)))"
  by pat_completeness auto
termination
  by (relation "measure nat") auto

declare bitLength.simps [simp del]

definition roundDouble :: "int \<Rightarrow> number" where
  "roundDouble v =
     (let a = \<bar>v\<bar> in
      if a \<le> 2 ^ 53 then Num v
      else
        let shift = bitLength a - 53;
            q = a div 2 ^ shift;
            r = a mod 2 ^ shift;
            half = 2 ^ (shift - 1);
            q' = (if half < r \<or> (r = half \<and> odd q) then q + 1 else q);
            m = q' * 2 ^ shift
        in if 2 ^ 1024 \<le> m then (if v < 0 then NegInfinity else PosInfinity)
           else Num (if v < 0 then - m else m))"

text \<open>\<open>x + 1\<close> on such a number: the exact sum, rounded.\<close>

fun plusOne :: "number \<Rightarrow> number" where
  "plusOne NaN = NaN"
| "plusOne PosInfinity = PosInfinity"
| "plusOne NegInfinity = NegInfinity"
| "plusOne (Num v) = roundDouble (v + 1)"

fun isNaN :: "number \<Rightarrow> bool" where
  "isNaN NaN = True"
| "isNaN _ = False"

text \<open>
  \<open>parseInt(s, 10)\<close>: leading white space is skipped, one sign is read, then the longest
  run of decimal digits; what follows the digits is ignored, and no digit at all gives
  NaN. The value is the exact integer the digits denote, rounded to a double (ECMAScript
  lets an implementation zero the digits after the twentieth; the model keeps them).
\<close>

definition parseInt :: "string \<Rightarrow> number" where
  "parseInt inputString =
     (let S = trimStart inputString;
          negative = (S \<noteq> [] \<and> hd S = CHR ''-'');
          S' = (if S \<noteq> [] \<and> (hd S = CHR ''+'' \<or> hd S = CHR ''-'') then tl S else S);
          Z = takeWhile isDigit S'
      in if Z = [] then NaN
         else roundDouble (if negative then - digitsValue Z else digitsValue Z))"

text \<open>
  \<open>Number.prototype.toString\<close> in radix 10, on such a number. ECMAScript prints the
  shortest digit string \<open>s\<close> (of \<open>k\<close> digits, scaled to \<open>n\<close> integer digits) that
  converts back to the same double: for an integer of magnitude up to \<open>2 ^ 53\<close> that
  is its exact decimal numeral; beyond it, the digits \<open>s\<close> are followed by zeros while
  \<open>n \<le> 21\<close>, and the exponential form is used from \<open>10 ^ 21\<close> on. Where two digit
  strings of the least length convert back, the one nearest the double is taken (the
  standard recommends it and leaves the last digit to the implementation).
\<close>

definition candidates :: "int \<Rightarrow> nat \<Rightarrow> (nat \<times> int) list" where
  "candidates x k =
     (let D = length (decimal x); p = 10 ^ (D - k) in
      (if k = 1 \<and> roundDouble (10 ^ D) = Num x then [(D + 1, 1)] else []) @
      map (\<lambda>s. (D, s))
        (filter (\<lambda>s. 10 ^ (k - 1) \<le> s \<and> s < 10 ^ k \<and> roundDouble (s * p) = Num x)
           [x div p, x div p + 1]))"

definition distance :: "int \<Rightarrow> nat \<Rightarrow> nat \<times> int \<Rightarrow> int" where
  "distance x k c = \<bar>snd c * 10 ^ (fst c - k) - x\<bar>"

fun nearest :: "int \<Rightarrow> nat \<Rightarrow> (nat \<times> int) list \<Rightarrow> nat \<times> int" where
  "nearest x k [] = (length (decimal x), x)"
| "nearest x k [c] = c"
| "nearest x k (c # d # cs) =
     (if distance x k d < distance x k c then nearest x k (d # cs) else nearest x k (c # cs))"

definition shortestDigits :: "int \<Rightarrow> nat \<times> nat \<times> int" where
  "shortestDigits x =
     (let D = length (decimal x) in
      case List.find (\<lambda>k. candidates x k \<noteq> []) [1 ..< Suc D] of
        None \<Rightarrow> (D, D, x)
      | Some k \<Rightarrow> (let c = nearest x k (candidates x k) in (fst c, k, snd c)))"

definition largeToString :: "int \<Rightarrow> string" where
  "largeToString x =
     (case shortestDigits x of (n, k, s) \<Rightarrow>
        if n \<le> 21 then decimal s @ replicate (n - k) CHR ''0''
        else (if k = 1 then decimal s else hd (decimal s) # CHR ''.'' # tl (decimal s))
             @ ''e+'' @ decimal (int n - 1))"

definition magnitudeToString :: "int \<Rightarrow> string" where
  "magnitudeToString a = (if a \<le> 2 ^ 53 then decimal a else largeToString a)"

fun toString :: "number \<Rightarrow> string" where
  "toString NaN = ''NaN''"
| "toString PosInfinity = ''Infinity''"
| "toString NegInfinity = ''-Infinity''"
| "toString (Num v) = (if v < 0 then CHR ''-'' # magnitudeToString (- v) else magnitudeToString v)"

section \<open>The quotation and its line items\<close>

subsection \<open>Numbers that hold amounts\<close>

text \<open>
  Quantities, rates, percentages and totals are binary64 values of any kind. The model has
  every such value: NaN, the two infinities, negative zero, and \<open>Finite r\<close> for the double
  whose value is the rational \<open>r\<close> (\<open>Finite 0\<close> is positive zero). Comparison,
  \<open>Math.max\<close> and the truth test of \<open>||\<close> are exact operations and are defined here.
  The four rounding operations \<open>+\<close>, \<open>-\<close>, \<open>*\<close> and \<open>/\<close> are not modelled: the
  code that computes with them takes them as a parameter, and what is proved of that code
  holds for every choice of them, IEEE 754's among them.
\<close>

datatype double = NotANumber | PlusInfinity | MinusInfinity | NegativeZero | Finite rat

fun finiteValue :: "double \<Rightarrow> rat" where
  "finiteValue (Finite r) = r"
| "finiteValue _ = 0"

text \<open>\<open>a < b\<close>: false when either is NaN, and the two zeros are equal.\<close>

fun lt :: "double \<Rightarrow> double \<Rightarrow> bool" where
  "lt NotANumber b = False"
| "lt a NotANumber = False"
| "lt PlusInfinity b = False"
| "lt a PlusInfinity = True"
| "lt a MinusInfinity = False"
| "lt MinusInfinity b = True"
| "lt a b = (finiteValue a < finiteValue b)"

text \<open>\<open>a >= b\<close>: false when either is NaN.\<close>

definition greaterOrEqual :: "double \<Rightarrow> double \<Rightarrow> bool" where
  "greaterOrEqual a b \<longleftrightarrow> a \<noteq> NotANumber \<and> b \<noteq> NotANumber \<and> \<not> lt a b"

text \<open>\<open>Math.max(a, b)\<close>: NaN when either is NaN, and positive zero is above negative zero.\<close>

definition mathMax :: "double \<Rightarrow> double \<Rightarrow> double" where
  "mathMax a b =
     (if a = NotANumber \<or> b = NotANumber then NotANumber
      else if a = NegativeZero \<and> b = Finite 0 then Finite 0
      else if lt a b then b else a)"

text \<open>\<open>x || 0\<close>: NaN and the two zeros are false, and give the \<open>0\<close>.\<close>

definition orZero :: "double \<Rightarrow> double" where
  "orZero x = (if x = NotANumber \<or> x = NegativeZero \<or> x = Finite 0 then Finite 0 else x)"

record arithmetic =
  plusOp :: "double \<Rightarrow> double \<Rightarrow> double"
  minusOp :: "double \<Rightarrow> double \<Rightarrow> double"
  timesOp :: "double \<Rightarrow> double \<Rightarrow> double"
  divideOp :: "double \<Rightarrow> double \<Rightarrow> double"

subsection \<open>The interfaces\<close>

text \<open>The interfaces of \<open>types.ts\<close>. An optional field is an \<open>option\<close>.\<close>

record LineItem =
  item_id :: string
  description :: string
  quantity :: double
  rate :: double

record Client =
  client_name :: string
  client_phone :: string

record Company =
  company_name :: string
  logoUrl :: "string option"
  address :: string
  email :: string
  company_phone :: string

record Quotation =
  company :: Company
  client :: Client
  quotationNumber :: string
  quotationDate :: string
  validUntil :: string
  items :: "LineItem list"
  termsAndConditions :: string
  gstRate :: double
  advancePercentage :: double
  authorizedSignature :: "string option"
  clientSignature :: "string option"

section \<open>Quotation numbering\<close>

text \<open>
  The initialiser of the \<open>quotation\<close> state in \<open>App\<close>. It reads
  \<open>localStorage.getItem('lastQuotationNumber')\<close> (\<open>None\<close> for \<open>null\<close>) and the current
  date, of which it uses \<open>getFullYear()\<close> and \<open>getMonth()\<close> (0 for January).
\<close>

record date =
  getFullYear :: int
  getMonth :: int

definition prefix :: "date \<Rightarrow> string" where
  "prefix today =
     (let year = Num (getFullYear today);
          month = padStart 2 CHR ''0'' (toString (plusOne (Num (getMonth today))))
      in ''AEE-'' @ toString year @ month @ ''-'')"

definition nextSequence :: "string option \<Rightarrow> date \<Rightarrow> number" where
  "nextSequence lastNumberStr today =
     (case lastNumberStr of
        None \<Rightarrow> Num 1
      | Some lastNumber \<Rightarrow>
          if lastNumber \<noteq> [] \<and> startsWith lastNumber (prefix today) then
            (let lastSequence = parseInt (substring lastNumber (length (prefix today)))
             in if \<not> isNaN lastSequence then plusOne lastSequence else Num 1)
          else Num 1)"

definition newQuotationNumber :: "string option \<Rightarrow> date \<Rightarrow> string" where
  "newQuotationNumber lastNumberStr today =
     prefix today @ padStart 3 CHR ''0'' (toString (nextSequence lastNumberStr today))"

text \<open>
  The \<open>initialQuotation\<close> of the source, built when the module loads: the date of that
  moment, its two formatted dates and the identifier \<open>crypto.randomUUID()\<close> gave are
  parameters. The initial state of \<open>App\<close> is that quotation with the new number.
\<close>

definition initialQuotation :: "date \<Rightarrow> string \<Rightarrow> string \<Rightarrow> string \<Rightarrow> Quotation" where
  "initialQuotation today formattedToday formattedOneMonthLater uuid =
     \<lparr>company = \<lparr>company_name = ''The Aura Elite Events'', logoUrl = None,
                  address = ''18/10 new bypass ariyankuppam, puducherry-605007'',
                  email = ''theauraeliteevents@gmail.com'',
                  company_phone = ''+91 9363682099''\<rparr>,
      client = \<lparr>client_name = [], client_phone = []\<rparr>,
      quotationNumber =
        ''AEE-'' @ toString (Num (getFullYear today))
        @ padStart 2 CHR ''0'' (toString (plusOne (Num (getMonth today)))) @ ''-001'',
      quotationDate = formattedToday,
      validUntil = formattedOneMonthLater,
      items = [\<lparr>item_id = uuid, description = [], quantity = Finite 1, rate = Finite 0\<rparr>],
      termsAndConditions =
        ''1. 50% advance payment is required to confirm the booking.'' @ [CHR 0x0A]
        @ ''2. The remaining balance is to be paid on the day of the event.'' @ [CHR 0x0A]
        @ ''3. In case of cancellation, the advance payment is non-refundable.'',
      gstRate = Finite 18,
      advancePercentage = Finite 50,
      authorizedSignature = None,
      clientSignature = None\<rparr>"

definition initialState :: "Quotation \<Rightarrow> string option \<Rightarrow> date \<Rightarrow> Quotation" where
  "initialState initial lastNumberStr today =
     initial\<lparr>quotationNumber := newQuotationNumber lastNumberStr today\<rparr>"

text \<open>A date in January 2024 and the initial quotation of a module loaded then, to evaluate on.\<close>

definition january2024 :: date where
  "january2024 = \<lparr>getFullYear = 2024, getMonth = 0\<rparr>"

definition sampleQuotation :: Quotation where
  "sampleQuotation = initialQuotation january2024 ''2024-01-15'' ''2024-02-15'' ''item-1''"

text \<open>
  The specification's reading of a sequence number: the exact decimal numeral of an
  integer, with a minus sign when it is negative.
\<close>

definition signedDecimal :: "int \<Rightarrow> string" where
  "signedDecimal v = (if v < 0 then CHR ''-'' # decimal (- v) else decimal v)"

section \<open>Derived totals\<close>

text \<open>
  The \<open>useMemo\<close> of \<open>App\<close> that computes the five amounts from the quotation state:
  a left fold over the items from 0, the GST rate replaced by 0 unless it is \<open>>= 0\<close>,
  and the advance percentage used as it is stored. The arithmetic is the parameter \<open>ar\<close>.
\<close>

record Totals =
  subtotal :: double
  gstAmount :: double
  grandTotal :: double
  advanceAmount :: double
  balanceDue :: double

definition computeTotals :: "arithmetic \<Rightarrow> Quotation \<Rightarrow> Totals" where
  "computeTotals ar q =
     (let subtotal' =
            foldl (\<lambda>acc item. plusOp ar acc (timesOp ar (quantity item) (rate item)))
              (Finite 0) (items q);
          gstRate' = (if greaterOrEqual (gstRate q) (Finite 0) then gstRate q else Finite 0);
          gstAmount' = timesOp ar subtotal' (divideOp ar gstRate' (Finite 100));
          grandTotal' = plusOp ar subtotal' gstAmount';
          advanceAmount' = timesOp ar grandTotal' (divideOp ar (advancePercentage q) (Finite 100));
          balanceDue' = minusOp ar grandTotal' advanceAmount'
      in \<lparr>subtotal = subtotal', gstAmount = gstAmount', grandTotal = grandTotal',
          advanceAmount = advanceAmount', balanceDue = balanceDue'\<rparr>)"

section \<open>The handlers that write the quotation\<close>

text \<open>
  Every \<open>setQuotation\<close> of \<open>App\<close>, each a function of the previous state. The two rate
  inputs read \<open>parseFloat(e.target.value)\<close>; the model takes that parsed number as the
  argument. The inputs handled by \<open>handleClientChange\<close> and \<open>handleQuotationInfoChange\<close>
  are named by their \<open>id\<close>, so the computed key \<open>[name]\<close> is one of the fields below.
  \<open>handleItemChange\<close> maps over the items and rebuilds the one addressed with one field
  replaced; its two arguments \<open>field\<close> and \<open>value\<close> are one value here, of the shapes
  its call sites pass: a string for the description, a number for the quantity and for
  the rate. \<open>removeItem\<close> keeps the items whose identifier differs.
\<close>

datatype clientField = ClientName | ClientPhone

definition handleClientChange :: "clientField \<Rightarrow> string \<Rightarrow> Quotation \<Rightarrow> Quotation" where
  "handleClientChange name value prev =
     (case name of
        ClientName \<Rightarrow> prev\<lparr>client := (client prev)\<lparr>client_name := value\<rparr>\<rparr>
      | ClientPhone \<Rightarrow> prev\<lparr>client := (client prev)\<lparr>client_phone := value\<rparr>\<rparr>)"

datatype infoField = QuotationNumber | QuotationDate | ValidUntil

definition handleQuotationInfoChange :: "infoField \<Rightarrow> string \<Rightarrow> Quotation \<Rightarrow> Quotation" where
  "handleQuotationInfoChange name value prev =
     (case name of
        QuotationNumber \<Rightarrow> prev\<lparr>quotationNumber := value\<rparr>
      | QuotationDate \<Rightarrow> prev\<lparr>quotationDate := value\<rparr>
      | ValidUntil \<Rightarrow> prev\<lparr>validUntil := value\<rparr>)"

datatype fieldValue = Description string | Quantity double | Rate double

fun setField :: "fieldValue \<Rightarrow> LineItem \<Rightarrow> LineItem" where
  "setField (Description v) item = item\<lparr>description := v\<rparr>"
| "setField (Quantity v) item = item\<lparr>quantity := v\<rparr>"
| "setField (Rate v) item = item\<lparr>rate := v\<rparr>"

definition handleItemChange :: "string \<Rightarrow> fieldValue \<Rightarrow> Quotation \<Rightarrow> Quotation" where
  "handleItemChange i fv prev =
     prev\<lparr>items := map (\<lambda>item. if item_id item = i then setField fv item else item) (items prev)\<rparr>"

definition addNewItem :: "string \<Rightarrow> Quotation \<Rightarrow> Quotation" where
  "addNewItem uuid prev =
     prev\<lparr>items := items prev
       @ [\<lparr>item_id = uuid, description = [], quantity = Finite 1, rate = Finite 0\<rparr>]\<rparr>"

definition removeItem :: "string \<Rightarrow> Quotation \<Rightarrow> Quotation" where
  "removeItem i prev = prev\<lparr>items := filter (\<lambda>item. item_id item \<noteq> i) (items prev)\<rparr>"

definition handleTermsAndConditionsChange :: "string \<Rightarrow> Quotation \<Rightarrow> Quotation" where
  "handleTermsAndConditionsChange value prev = prev\<lparr>termsAndConditions := value\<rparr>"

definition handleGstChange :: "double \<Rightarrow> Quotation \<Rightarrow> Quotation" where
  "handleGstChange parsed prev =
     (let value = mathMax (Finite 0) (orZero parsed) in prev\<lparr>gstRate := value\<rparr>)"

definition handleAdvanceChange :: "double \<Rightarrow> Quotation \<Rightarrow> Quotation" where
  "handleAdvanceChange parsed prev =
     (let value = mathMax (Finite 0) (orZero parsed) in prev\<lparr>advancePercentage := value\<rparr>)"

text \<open>
  \<open>handleLogoChange\<close> writes when the file reader has loaded a file of at most 2 MB: the
  argument is the data URL it read. \<open>handleRemoveLogo\<close> rebuilds the company without
  the logo.
\<close>

definition handleLogoChange :: "string \<Rightarrow> Quotation \<Rightarrow> Quotation" where
  "handleLogoChange result prev = prev\<lparr>company := (company prev)\<lparr>logoUrl := Some result\<rparr>\<rparr>"

definition handleRemoveLogo :: "Quotation \<Rightarrow> Quotation" where
  "handleRemoveLogo prev = prev\<lparr>company := (company prev)\<lparr>logoUrl := None\<rparr>\<rparr>"

datatype signatureType = Authorized | ClientSigned

definition handleSaveSignature :: "signatureType \<Rightarrow> string \<Rightarrow> Quotation \<Rightarrow> Quotation" where
  "handleSaveSignature type dataUrl prev =
     (case type of
        Authorized \<Rightarrow> prev\<lparr>authorizedSignature := Some dataUrl\<rparr>
      | ClientSigned \<Rightarrow> prev\<lparr>clientSignature := Some dataUrl\<rparr>)"

text \<open>
  The states the quotation can take: the initial state, then any sequence of the writes
  above, each with the arguments of its event.
\<close>

datatype event =
    ClientChange clientField string
  | QuotationInfoChange infoField string
  | ItemChange string fieldValue
  | AddNewItem string
  | RemoveItem string
  | TermsAndConditionsChange string
  | GstChange double
  | AdvanceChange double
  | LogoChange string
  | RemoveLogo
  | SaveSignature signatureType string

fun handle :: "event \<Rightarrow> Quotation \<Rightarrow> Quotation" where
  "handle (ClientChange name value) prev = handleClientChange name value prev"
| "handle (QuotationInfoChange name value) prev = handleQuotationInfoChange name value prev"
| "handle (ItemChange i fv) prev = handleItemChange i fv prev"
| "handle (AddNewItem uuid) prev = addNewItem uuid prev"
| "handle (RemoveItem i) prev = removeItem i prev"
| "handle (TermsAndConditionsChange value) prev = handleTermsAndConditionsChange value prev"
| "handle (GstChange parsed) prev = handleGstChange parsed prev"
| "handle (AdvanceChange parsed) prev = handleAdvanceChange parsed prev"
| "handle (LogoChange result) prev = handleLogoChange result prev"
| "handle RemoveLogo prev = handleRemoveLogo prev"
| "handle (SaveSignature type dataUrl) prev = handleSaveSignature type dataUrl prev"

definition run :: "event list \<Rightarrow> Quotation \<Rightarrow> Quotation" where
  "run events initial = foldl (\<lambda>prev e. handle e prev) initial events"

text \<open>The sample quotation with one item of quantity 1 and rate 100 and no GST.\<close>

definition oneItemQuotation :: Quotation where
  "oneItemQuotation =
     sampleQuotation\<lparr>items := [\<lparr>item_id = ''item-1'', description = ''Venue Decoration'',
                                  quantity = Finite 1, rate = Finite 100\<rparr>],
                      gstRate := Finite 0\<rparr>"

text \<open>A quotation with three items, to evaluate the operations on the items on.\<close>

definition venueItem :: LineItem where
  "venueItem = \<lparr>item_id = ''item-1'', description = ''Venue Decoration'',
                 quantity = Finite 1, rate = Finite 100\<rparr>"

definition cateringItem :: LineItem where
  "cateringItem = \<lparr>item_id = ''item-2'', description = ''Catering'',
                    quantity = Finite 40, rate = Finite 25\<rparr>"

definition blankItem :: LineItem where
  "blankItem = \<lparr>item_id = ''item-3'', description = [], quantity = Finite 1, rate = Finite 0\<rparr>"

definition threeItemQuotation :: Quotation where
  "threeItemQuotation = sampleQuotation\<lparr>items := [venueItem, cateringItem, blankItem]\<rparr>"

section \<open>The text-generation helper\<close>

text \<open>
  \<open>generateDescription\<close> of \<open>services/geminiService.ts\<close>, the function the module
  exports once it has loaded. A promise is modelled by how it ends: fulfilled with a value,
  rejected with an error, or never settled. The call \<open>ai.models.generateContent\<close> is a
  parameter, from the prompt to how its promise ends, and the \<open>text\<close> of a response may
  be undefined (\<open>None\<close>), on which \<open>.trim()\<close> throws inside the \<open>try\<close>. \<open>API_KEY\<close> is
  \<open>process.env.API_KEY\<close>, \<open>None\<close> when undefined; \<open>!API_KEY\<close> also holds of the empty
  string.
\<close>

datatype error = Error string

datatype 'a promise = Fulfilled 'a | Rejected error | Pending

record GenerateContentResponse =
  response_text :: "string option"

definition apostrophe :: string where
  "apostrophe = [CHR 0x27]"

definition prompt :: "string \<Rightarrow> string" where
  "prompt itemName =
     ''Generate a professional, concise one-line description for an event planning service item: ''
     @ apostrophe @ itemName @ apostrophe
     @ ''. The context is a quotation for '' @ apostrophe @ ''The Aura Elite Events'' @ apostrophe
     @ ''. For example, for '' @ apostrophe @ ''Venue Decoration'' @ apostrophe
     @ '', a good description would be '' @ apostrophe
     @ ''Comprehensive and elegant decoration for the event venue as per the agreed theme.''
     @ apostrophe @ ''. Keep it under 15 words.''"

definition missingKeyMessage :: string where
  "missingKeyMessage = ''API key not configured. Please enter a description manually.''"

definition failureMessage :: string where
  "failureMessage = ''Failed to generate description. Please try again or enter manually.''"

definition generateDescription ::
  "string option \<Rightarrow> (string \<Rightarrow> GenerateContentResponse promise) \<Rightarrow> string \<Rightarrow> string promise" where
  "generateDescription API_KEY generateContent itemName =
     (if API_KEY = None \<or> API_KEY = Some [] then Fulfilled missingKeyMessage
      else
        case generateContent (prompt itemName) of
          Pending \<Rightarrow> Pending
        | Rejected e \<Rightarrow> Fulfilled failureMessage
        | Fulfilled response \<Rightarrow>
            (case response_text response of
               None \<Rightarrow> Fulfilled failureMessage
             | Some t \<Rightarrow> Fulfilled (trim t)))"

text \<open>
  The module itself. Importing \<open>geminiService.ts\<close> reads the key, warns on the console
  when it is missing (\<open>AI features will be disabled\<close>), and then constructs the client
  with \<open>new GoogleGenAI({ apiKey: API_KEY })\<close>, whatever the key, before it exports the
  function: when the constructor throws, the import fails and there is no function to
  call. The constructor belongs to the \<open>@google/genai\<close> library and is a parameter: from
  the key it returns the client (here its \<open>generateContent\<close>) or throws.
\<close>

definition geminiService ::
  "string option \<Rightarrow> (string option \<Rightarrow> error + (string \<Rightarrow> GenerateContentResponse promise))
     \<Rightarrow> error + (string \<Rightarrow> string promise)" where
  "geminiService API_KEY GoogleGenAI =
     (case GoogleGenAI API_KEY of
        Inl e \<Rightarrow> Inl e
      | Inr generateContent \<Rightarrow> Inr (generateDescription API_KEY generateContent))"

text \<open>
  The constructor as the browser build of the library has it (the library is not part
  of the repository): it throws when the key is null or undefined, and returns the client
  that talks to the service otherwise.
\<close>

definition browserGoogleGenAI ::
  "(string \<Rightarrow> GenerateContentResponse promise) \<Rightarrow> string option
     \<Rightarrow> error + (string \<Rightarrow> GenerateContentResponse promise)" where
  "browserGoogleGenAI service apiKey =
     (case apiKey of
        None \<Rightarrow> Inl (Error ''An API Key must be set when running in a browser'')
      | Some key \<Rightarrow> Inr service)"

text \<open>A service that fails, to evaluate on.\<close>

definition failingService :: "string \<Rightarrow> GenerateContentResponse promise" where
  "failingService contents = Rejected (Error ''503 Service Unavailable'')"

section \<open>Generating a description for an item\<close>

text \<open>
  \<open>handleGenerateDescription\<close> of \<open>App\<close> is asynchronous: it runs up to the \<open>await\<close>, and
  its continuation runs when the awaited promise settles, on the state of that moment
  (every update is a function of the previous state). The model has one function for
  each part. The first returns the new state and the text passed to
  \<open>generateDescription\<close>, \<open>None\<close> when it returned without calling. The second
  takes how the awaited promise ended and returns the new state with how the handler's
  own promise ends: there is a \<open>finally\<close> and no \<open>catch\<close>, so a rejection is passed on
  after the \<open>finally\<close> block has run.
\<close>

record AppState =
  quotation :: Quotation
  generatingItems :: "string set"

definition handleGenerateDescription_start ::
  "string \<Rightarrow> string \<Rightarrow> AppState \<Rightarrow> AppState \<times> string option" where
  "handleGenerateDescription_start i currentDescription st =
     (if trim currentDescription = [] then (st, None)
      else (st\<lparr>generatingItems := insert i (generatingItems st)\<rparr>, Some currentDescription))"

definition finallyBlock :: "string \<Rightarrow> AppState \<Rightarrow> AppState" where
  "finallyBlock i st = st\<lparr>generatingItems := generatingItems st - {i}\<rparr>"

definition handleGenerateDescription_settle ::
  "string \<Rightarrow> string promise \<Rightarrow> AppState \<Rightarrow> AppState \<times> unit promise" where
  "handleGenerateDescription_settle i awaited st =
     (case awaited of
        Pending \<Rightarrow> (st, Pending)
      | Fulfilled newDescription \<Rightarrow>
          (finallyBlock i
             (st\<lparr>quotation := handleItemChange i (Description newDescription) (quotation st)\<rparr>),
           Fulfilled ())
      | Rejected e \<Rightarrow> (finallyBlock i st, Rejected e))"

text \<open>
  One whole run of the handler: the part before the \<open>await\<close>, whatever other handlers
  do to the state while the call is awaited (\<open>meanwhile\<close>), and the continuation.
\<close>

definition handleGenerateDescription ::
  "string option \<Rightarrow> (string \<Rightarrow> GenerateContentResponse promise) \<Rightarrow> (AppState \<Rightarrow> AppState)
     \<Rightarrow> string \<Rightarrow> string \<Rightarrow> AppState \<Rightarrow> AppState \<times> unit promise" where
  "handleGenerateDescription API_KEY generateContent meanwhile i currentDescription st =
     (case handleGenerateDescription_start i currentDescription st of
        (st', None) \<Rightarrow> (st', Fulfilled ())
      | (st', Some itemName) \<Rightarrow>
          handleGenerateDescription_settle i
            (generateDescription API_KEY generateContent itemName) (meanwhile st'))"

text \<open>A state in which nothing is being generated, to evaluate on.\<close>

definition idleState :: AppState where
  "idleState = \<lparr>quotation = threeItemQuotation, generatingItems = {}\<rparr>"

section \<open>Properties of the numbering\<close>

subsection \<open>Decimal numerals\<close>

lemma isDigit_digitChar: "0 \<le> d \<Longrightarrow> d < 10 \<Longrightarrow> isDigit (digitChar d)"
  by (simp add: isDigit_def digitChar_def)

lemma digitValue_digitChar: "0 \<le> d \<Longrightarrow> d < 10 \<Longrightarrow> digitValue (digitChar d) = d"
  by (simp add: digitValue_def digitChar_def)

lemma digitsValue_snoc: "digitsValue (Z @ [c]) = digitsValue Z * 10 + digitValue c"
  by (simp add: digitsValue_def)

lemma decimal_small: "n < 10 \<Longrightarrow> decimal n = [digitChar n]"
  by (simp add: decimal.simps)

lemma decimal_step: "10 \<le> n \<Longrightarrow> decimal n = decimal (n div 10) @ [digitChar (n mod 10)]"
  by (subst decimal.simps) simp

lemma decimal_digits: "0 \<le> n \<Longrightarrow> list_all isDigit (decimal n)"
proof (induction n rule: decimal.induct)
  case (1 n)
  show ?case
  proof (cases "n < 10")
    case True
    with "1.prems" show ?thesis by (simp add: decimal_small isDigit_digitChar)
  next
    case False
    then have "list_all isDigit (decimal (n div 10))" using "1.IH" "1.prems" by simp
    moreover have "isDigit (digitChar (n mod 10))" by (rule isDigit_digitChar) simp_all
    ultimately show ?thesis using False by (simp add: decimal_step)
  qed
qed

lemma digitsValue_decimal: "0 \<le> n \<Longrightarrow> digitsValue (decimal n) = n"
proof (induction n rule: decimal.induct)
  case (1 n)
  show ?case
  proof (cases "n < 10")
    case True
    with "1.prems" show ?thesis
      by (simp add: decimal_small digitsValue_def digitValue_digitChar)
  next
    case False
    then have "digitsValue (decimal (n div 10)) = n div 10" using "1.IH" "1.prems" by simp
    moreover have "digitValue (digitChar (n mod 10)) = n mod 10"
      by (rule digitValue_digitChar) simp_all
    ultimately show ?thesis using False by (simp add: decimal_step digitsValue_snoc)
  qed
qed

lemma length_decimal_le: "0 < k \<Longrightarrow> n < 10 ^ k \<Longrightarrow> length (decimal n) \<le> k"
proof (induction n arbitrary: k rule: decimal.induct)
  case (1 n)
  show ?case
  proof (cases "n < 10")
    case True
    with "1.prems" show ?thesis by (simp add: decimal_small)
  next
    case False
    with "1.prems" have k1: "1 < k" by (cases "k = 1") auto
    then obtain j where j: "k = Suc j" "0 < j" by (cases k) auto
    have "n < 10 * 10 ^ j" using "1.prems" j by simp
    then have "n div 10 < 10 ^ j" by linarith
    then have "length (decimal (n div 10)) \<le> j" using "1.IH" False j by simp
    then show ?thesis using False j by (simp add: decimal_step)
  qed
qed

lemma length_decimal_ge: "10 ^ k \<le> n \<Longrightarrow> k < length (decimal n)"
proof (induction n arbitrary: k rule: decimal.induct)
  case (1 n)
  show ?case
  proof (cases "n < 10")
    case True
    have "k = 0"
    proof (cases k)
      case (Suc j)
      have "(1::int) \<le> 10 ^ j" by simp
      then have "(10::int) \<le> 10 * 10 ^ j" by linarith
      with True "1.prems" Suc show ?thesis by simp
    qed simp
    then show ?thesis using True by (simp add: decimal_small)
  next
    case False
    show ?thesis
    proof (cases k)
      case 0
      then show ?thesis using False by (simp add: decimal_step)
    next
      case (Suc j)
      then have "10 * 10 ^ j \<le> n" using "1.prems" by simp
      then have "10 ^ j \<le> n div 10" by linarith
      then have "j < length (decimal (n div 10))" using "1.IH" False by simp
      then show ?thesis using False Suc by (simp add: decimal_step)
    qed
  qed
qed

lemma length_padStart: "targetLength \<le> length (padStart targetLength c s)"
  by (simp add: padStart_def)

lemma digitsValue_zeros: "digitsValue (replicate j CHR ''0'' @ s) = digitsValue s"
  by (induction j) (simp_all add: digitsValue_def digitValue_def)

subsection \<open>Numbers within the exact range\<close>

lemma roundDouble_exact: "\<bar>v\<bar> \<le> 2 ^ 53 \<Longrightarrow> roundDouble v = Num v"
  by (simp add: roundDouble_def)

lemma toString_exact: "\<bar>v\<bar> \<le> 2 ^ 53 \<Longrightarrow> toString (Num v) = signedDecimal v"
  by (auto simp: magnitudeToString_def signedDecimal_def)

lemma prefix_not_empty: "prefix today \<noteq> []"
  by (simp add: prefix_def Let_def)

lemma startsWith_not_empty: "startsWith s p \<Longrightarrow> p \<noteq> [] \<Longrightarrow> s \<noteq> []"
  by (auto simp: startsWith_def)

lemma nextSequence_increment:
  assumes "startsWith lastNumber (prefix today)"
      and "parseInt (substring lastNumber (length (prefix today))) = Num n"
  shows "nextSequence (Some lastNumber) today = roundDouble (n + 1)"
proof -
  have "lastNumber \<noteq> []"
    using assms(1) prefix_not_empty by (rule startsWith_not_empty)
  with assms show ?thesis by (simp add: nextSequence_def)
qed

lemma nextSequence_reset:
  assumes "case lastNumberStr of None \<Rightarrow> True
           | Some s \<Rightarrow> \<not> startsWith s (prefix today) \<or>
                       isNaN (parseInt (substring s (length (prefix today))))"
  shows "nextSequence lastNumberStr today = Num 1"
  using assms by (auto simp: nextSequence_def Let_def split: option.splits)

lemma pad_one: "padStart 3 CHR ''0'' (toString (Num 1)) = ''001''"
  by code_simp

subsection \<open>The next identifier\<close>

text \<open>
  C1 (amended). JavaScript numbers are doubles, so \<open>lastSequence + 1\<close> is the exact
  successor only while the parsed value is a safe integer. For every stored string that
  starts with the prefix \<open>AEE-<year><month>-\<close> of the current date and whose remainder
  \<open>parseInt\<close> reads as an integer \<open>n\<close> with \<open>\<bar>n\<bar> < 2 ^ 53\<close>, the new quotation number is
  that prefix followed by \<open>n + 1\<close> in decimal, padded on the left with zeros to three
  characters. In particular \<open>AEE-202401-007\<close> read in January 2024 gives
  \<open>AEE-202401-008\<close>.
\<close>

theorem newQuotationNumber_increments:
  assumes "startsWith lastNumber (prefix today)"
      and "parseInt (substring lastNumber (length (prefix today))) = Num n"
      and "\<bar>n\<bar> < 2 ^ 53"
  shows "newQuotationNumber (Some lastNumber) today =
           prefix today @ padStart 3 CHR ''0'' (signedDecimal (n + 1)) \<and>
         newQuotationNumber (Some ''AEE-202401-007'') january2024 = ''AEE-202401-008''"
proof
  have bound: "\<bar>n + 1\<bar> \<le> 2 ^ 53" using assms(3) by linarith
  have "nextSequence (Some lastNumber) today = roundDouble (n + 1)"
    using assms(1,2) by (rule nextSequence_increment)
  also have "\<dots> = Num (n + 1)" using bound by (rule roundDouble_exact)
  finally have "toString (nextSequence (Some lastNumber) today) = signedDecimal (n + 1)"
    using bound by (simp only: toString_exact)
  then show "newQuotationNumber (Some lastNumber) today =
               prefix today @ padStart 3 CHR ''0'' (signedDecimal (n + 1))"
    by (simp only: newQuotationNumber_def)
next
  show "newQuotationNumber (Some ''AEE-202401-007'') january2024 = ''AEE-202401-008''"
    by code_simp
qed

theorem newQuotationNumber_increments_witness:
  "startsWith ''AEE-202401-007'' (prefix january2024) \<and>
   parseInt (substring ''AEE-202401-007'' (length (prefix january2024))) = Num 7 \<and>
   \<bar>7 :: int\<bar> < 2 ^ 53 \<and>
   newQuotationNumber (Some ''AEE-202401-007'') january2024 =
     prefix january2024 @ padStart 3 CHR ''0'' (signedDecimal (7 + 1))"
proof -
  have h1: "startsWith ''AEE-202401-007'' (prefix january2024)" by code_simp
  have h2: "parseInt (substring ''AEE-202401-007'' (length (prefix january2024))) = Num 7"
    by code_simp
  have h3: "\<bar>7 :: int\<bar> < 2 ^ 53" by simp
  from newQuotationNumber_increments [OF h1 h2 h3] h1 h2 h3 show ?thesis by blast
qed

text \<open>
  The claim as it was stated, for every integer \<open>n\<close>, fails at \<open>n = 2 ^ 53\<close>: the stored
  string has the prefix and parses as \<open>9007199254740992\<close>, the sum
  \<open>9007199254740992 + 1\<close> rounds back to \<open>9007199254740992\<close>, and the identifier repeats
  the stored one where the claim asks for the suffix \<open>9007199254740993\<close>.
\<close>

theorem newQuotationNumber_increments_counterexample:
  "startsWith ''AEE-202401-9007199254740992'' (prefix january2024) \<and>
   parseInt (substring ''AEE-202401-9007199254740992'' (length (prefix january2024)))
     = Num 9007199254740992 \<and>
   newQuotationNumber (Some ''AEE-202401-9007199254740992'') january2024
     = ''AEE-202401-9007199254740992'' \<and>
   prefix january2024 @ padStart 3 CHR ''0'' (signedDecimal (9007199254740992 + 1))
     = ''AEE-202401-9007199254740993'' \<and>
   newQuotationNumber (Some ''AEE-202401-9007199254740992'') january2024
     \<noteq> prefix january2024 @ padStart 3 CHR ''0'' (signedDecimal (9007199254740992 + 1))"
  by code_simp

lemma roundDouble_not_NaN: "\<not> isNaN (roundDouble v)"
  by (simp add: roundDouble_def Let_def)

text \<open>\<open>parseInt\<close> gives NaN exactly when no digit follows the optional white space and sign.\<close>

lemma isNaN_parseInt_iff:
  "isNaN (parseInt s) \<longleftrightarrow>
     takeWhile isDigit
       (if trimStart s \<noteq> [] \<and> (hd (trimStart s) = CHR ''+'' \<or> hd (trimStart s) = CHR ''-'')
        then tl (trimStart s) else trimStart s) = []"
  by (simp add: parseInt_def Let_def roundDouble_not_NaN)

text \<open>
  C2 (amended). When nothing is stored, or the stored string does not start with the
  prefix of the current year and month, or \<open>parseInt\<close> reads its remainder as NaN (no
  decimal digit after the optional white space and sign), the new quotation number is the
  prefix of the current month followed by \<open>001\<close>. The computation has no failing
  branch: it is a total function to strings. In particular nothing stored gives
  \<open>AEE-202401-001\<close> in January 2024, and so do the stored \<open>AEE-202312-007\<close> and
  \<open>AEE-202401-XYZ\<close>.
\<close>

theorem newQuotationNumber_resets:
  assumes "case lastNumberStr of None \<Rightarrow> True
           | Some s \<Rightarrow> \<not> startsWith s (prefix today) \<or>
                       isNaN (parseInt (substring s (length (prefix today))))"
  shows "newQuotationNumber lastNumberStr today = prefix today @ ''001'' \<and>
         newQuotationNumber None january2024 = ''AEE-202401-001'' \<and>
         newQuotationNumber (Some ''AEE-202312-007'') january2024 = ''AEE-202401-001'' \<and>
         newQuotationNumber (Some ''AEE-202401-XYZ'') january2024 = ''AEE-202401-001''"
proof (intro conjI)
  have "nextSequence lastNumberStr today = Num 1"
    using assms by (rule nextSequence_reset)
  then show "newQuotationNumber lastNumberStr today = prefix today @ ''001''"
    by (simp only: newQuotationNumber_def pad_one)
next
  show "newQuotationNumber None january2024 = ''AEE-202401-001''" by code_simp
next
  show "newQuotationNumber (Some ''AEE-202312-007'') january2024 = ''AEE-202401-001''"
    by code_simp
next
  show "newQuotationNumber (Some ''AEE-202401-XYZ'') january2024 = ''AEE-202401-001''"
    by code_simp
qed

theorem newQuotationNumber_resets_witness:
  "\<not> startsWith ''AEE-202312-007'' (prefix january2024) \<and>
   isNaN (parseInt (substring ''AEE-202401-XYZ'' (length (prefix january2024)))) \<and>
   newQuotationNumber (Some ''AEE-202312-007'') january2024 = prefix january2024 @ ''001'' \<and>
   newQuotationNumber (Some ''AEE-202401-XYZ'') january2024 = prefix january2024 @ ''001'' \<and>
   newQuotationNumber None january2024 = prefix january2024 @ ''001''"
proof -
  have h1: "\<not> startsWith ''AEE-202312-007'' (prefix january2024)" by code_simp
  have h2: "isNaN (parseInt (substring ''AEE-202401-XYZ'' (length (prefix january2024))))"
    by code_simp
  have "newQuotationNumber (Some ''AEE-202312-007'') january2024 = prefix january2024 @ ''001''"
    using newQuotationNumber_resets [where lastNumberStr = "Some ''AEE-202312-007''" and today = january2024] h1 by simp
  moreover
  have "newQuotationNumber (Some ''AEE-202401-XYZ'') january2024 = prefix january2024 @ ''001''"
    using newQuotationNumber_resets [where lastNumberStr = "Some ''AEE-202401-XYZ''" and today = january2024] h2 by simp
  moreover
  have "newQuotationNumber None january2024 = prefix january2024 @ ''001''"
    using newQuotationNumber_resets [where lastNumberStr = None and today = january2024] by simp
  ultimately show ?thesis using h1 h2 by blast
qed

text \<open>
  The claim as it was stated, for every remainder that does not parse as an integer,
  fails at a remainder of 310 nines: \<open>parseInt\<close> reads it as Infinity, which is no
  integer and is not NaN either, so the guard \<open>!isNaN\<close> lets it through, and the new
  quotation number ends in \<open>Infinity\<close>, not in \<open>001\<close>.
\<close>

text \<open>
  The claim as it was stated, for every remainder that does not parse as an integer,
  fails at a remainder of 310 nines: \<open>parseInt\<close> reads it as Infinity, which is no
  integer and is not NaN either, so the guard \<open>!isNaN\<close> lets it through, and the new
  quotation number ends in \<open>Infinity\<close>, not in \<open>001\<close>.
\<close>

lemma prefix_january2024: "prefix january2024 = ''AEE-202401-''"
  by code_simp

lemma parseInt_310_nines: "parseInt (replicate 310 CHR ''9'') = PosInfinity"
  by code_simp

theorem newQuotationNumber_resets_counterexample:
  "startsWith (''AEE-202401-'' @ replicate 310 CHR ''9'') (prefix january2024) \<and>
   parseInt (substring (''AEE-202401-'' @ replicate 310 CHR ''9'') (length (prefix january2024)))
     = PosInfinity \<and>
   newQuotationNumber (Some (''AEE-202401-'' @ replicate 310 CHR ''9'')) january2024
     = ''AEE-202401-Infinity'' \<and>
   newQuotationNumber (Some (''AEE-202401-'' @ replicate 310 CHR ''9'')) january2024
     \<noteq> prefix january2024 @ ''001''"
proof -
  have starts: "startsWith (''AEE-202401-'' @ replicate 310 CHR ''9'') (prefix january2024)"
    by (simp add: prefix_january2024 startsWith_def)
  have rest: "substring (''AEE-202401-'' @ replicate 310 CHR ''9'') (length (prefix january2024))
      = replicate 310 CHR ''9''"
    by (simp add: prefix_january2024 substring_def)
  have parsed: "parseInt (substring (''AEE-202401-'' @ replicate 310 CHR ''9'')
      (length (prefix january2024))) = PosInfinity"
    by (simp only: rest parseInt_310_nines)
  have "nextSequence (Some (''AEE-202401-'' @ replicate 310 CHR ''9'')) january2024 = PosInfinity"
    using starts parsed by (simp add: nextSequence_def)
  then have number: "newQuotationNumber (Some (''AEE-202401-'' @ replicate 310 CHR ''9'')) january2024
      = ''AEE-202401-Infinity''"
    by (simp add: newQuotationNumber_def prefix_january2024 padStart_def)
  show ?thesis using starts parsed number by (simp add: prefix_january2024)
qed

subsection \<open>The format of the identifier\<close>

lemma length_padStart_eq: "length s \<le> k \<Longrightarrow> length (padStart k c s) = k"
  by (simp add: padStart_def)

lemma padded_decimal:
  assumes "0 \<le> v" and "v < 10 ^ k" and "0 < k"
  shows "length (padStart k CHR ''0'' (decimal v)) = k \<and>
         list_all isDigit (padStart k CHR ''0'' (decimal v)) \<and>
         digitsValue (padStart k CHR ''0'' (decimal v)) = v"
proof (intro conjI)
  have "length (decimal v) \<le> k" using assms(3,2) by (rule length_decimal_le)
  then show "length (padStart k CHR ''0'' (decimal v)) = k" by (rule length_padStart_eq)
next
  have "isDigit CHR ''0''" by (simp add: isDigit_def)
  then have "list_all isDigit (replicate (k - length (decimal v)) CHR ''0'')"
    by (simp add: list_all_iff)
  with decimal_digits [OF assms(1)]
  show "list_all isDigit (padStart k CHR ''0'' (decimal v))" by (simp add: padStart_def)
next
  show "digitsValue (padStart k CHR ''0'' (decimal v)) = v"
    using assms(1) by (simp add: padStart_def digitsValue_zeros digitsValue_decimal)
qed

lemma toString_small:
  assumes "0 \<le> v" and "v \<le> 2 ^ 53"
  shows "toString (Num v) = decimal v"
proof -
  have "\<bar>v\<bar> \<le> 2 ^ 53" using assms by linarith
  then have "toString (Num v) = signedDecimal v" by (rule toString_exact)
  then show ?thesis using assms(1) by (simp only: signedDecimal_def) simp
qed

lemma month_field:
  assumes "0 \<le> m" and "m < 12"
  shows "padStart 2 CHR ''0'' (toString (plusOne (Num m))) = padStart 2 CHR ''0'' (decimal (m + 1))"
proof -
  have "plusOne (Num m) = Num (m + 1)" using assms by (simp add: roundDouble_exact)
  moreover have "toString (Num (m + 1)) = decimal (m + 1)"
    using assms by (intro toString_small) simp_all
  ultimately show ?thesis by simp
qed

lemma year_field:
  assumes "1000 \<le> y" and "y \<le> 9999"
  shows "length (toString (Num y)) = 4 \<and> list_all isDigit (toString (Num y)) \<and>
         digitsValue (toString (Num y)) = y"
proof -
  have ts: "toString (Num y) = decimal y" using assms by (intro toString_small) simp_all
  have "length (decimal y) \<le> 4" using assms by (intro length_decimal_le) simp_all
  moreover have "3 < length (decimal y)" using assms by (intro length_decimal_ge) simp
  ultimately have "length (decimal y) = 4" by linarith
  then show ?thesis using assms ts by (simp add: decimal_digits digitsValue_decimal)
qed

lemma padStart_long: "k \<le> length s \<Longrightarrow> padStart k c s = s"
  by (simp add: padStart_def)

lemma toString_negative:
  assumes "v < 0" and "- (2 ^ 53) \<le> v"
  shows "toString (Num v) = CHR ''-'' # decimal (- v)"
proof -
  have "- v \<le> 2 ^ 53" using assms(2) by linarith
  then have "magnitudeToString (- v) = decimal (- v)" by (simp only: magnitudeToString_def if_True)
  then show ?thesis using assms(1) by simp
qed

lemma unpadded_decimal:
  assumes "1000 \<le> v"
  shows "padStart 3 CHR ''0'' (decimal v) = decimal v \<and> 4 \<le> length (decimal v) \<and>
         list_all isDigit (decimal v) \<and> digitsValue (decimal v) = v"
proof -
  have "(10::int) ^ 3 \<le> v" using assms by simp
  then have long: "3 < length (decimal v)" by (rule length_decimal_ge)
  then have "padStart 3 CHR ''0'' (decimal v) = decimal v" by (intro padStart_long) simp
  moreover have "0 \<le> v" using assms by simp
  ultimately show ?thesis using long by (simp add: decimal_digits digitsValue_decimal)
qed

text \<open>
  C5 (amended). For every stored value and every date whose month index is 0 to 11, the
  new quotation number is \<open>AEE-\<close>, the year in decimal (four digits for the years 1000
  to 9999), the month as exactly two digits, a hyphen, and the sequence field, which
  renders the next sequence number in at least three characters:
  \<^item> exactly three digits, padded with zeros, while the number is between 0 and 999;
  \<^item> its decimal numeral of four or more digits, not padded, from 1000 up to \<open>2 ^ 53\<close>;
  \<^item> a minus sign and its digits, padded with zeros on the left to three characters, for
    a negative number down to \<open>- 2 ^ 53\<close> (\<open>0-4\<close> for \<open>-4\<close>);
  \<^item> \<open>Infinity\<close> or \<open>-Infinity\<close> when the parsed sequence overflowed.
  Beyond \<open>2 ^ 53\<close> the field is the rendering \<open>toString\<close> gives the double; nothing
  more than its least length is stated of it.
\<close>

theorem newQuotationNumber_format:
  assumes "0 \<le> getMonth today" and "getMonth today < 12"
  shows "\<exists>YYYY MM NNN.
           newQuotationNumber lastNumberStr today = ''AEE-'' @ YYYY @ MM @ ''-'' @ NNN \<and>
           YYYY = toString (Num (getFullYear today)) \<and>
           (1000 \<le> getFullYear today \<and> getFullYear today \<le> 9999 \<longrightarrow>
              length YYYY = 4 \<and> list_all isDigit YYYY \<and> digitsValue YYYY = getFullYear today) \<and>
           length MM = 2 \<and> list_all isDigit MM \<and> digitsValue MM = getMonth today + 1 \<and>
           3 \<le> length NNN \<and>
           (\<forall>v. nextSequence lastNumberStr today = Num v \<and> 0 \<le> v \<and> v \<le> 999 \<longrightarrow>
              length NNN = 3 \<and> list_all isDigit NNN \<and> digitsValue NNN = v) \<and>
           (\<forall>v. nextSequence lastNumberStr today = Num v \<and> 1000 \<le> v \<and> v \<le> 2 ^ 53 \<longrightarrow>
              NNN = decimal v \<and> 4 \<le> length NNN \<and> list_all isDigit NNN \<and> digitsValue NNN = v) \<and>
           (\<forall>v. nextSequence lastNumberStr today = Num v \<and> - (2 ^ 53) \<le> v \<and> v < 0 \<longrightarrow>
              NNN = padStart 3 CHR ''0'' (CHR ''-'' # decimal (- v))) \<and>
           (nextSequence lastNumberStr today = PosInfinity \<longrightarrow> NNN = ''Infinity'') \<and>
           (nextSequence lastNumberStr today = NegInfinity \<longrightarrow> NNN = ''-Infinity'')"
proof -
  define YYYY where "YYYY = toString (Num (getFullYear today))"
  define MM where "MM = padStart 2 CHR ''0'' (toString (plusOne (Num (getMonth today))))"
  define NNN where "NNN = padStart 3 CHR ''0'' (toString (nextSequence lastNumberStr today))"
  have whole: "newQuotationNumber lastNumberStr today = ''AEE-'' @ YYYY @ MM @ ''-'' @ NNN"
    by (simp add: newQuotationNumber_def prefix_def YYYY_def MM_def NNN_def Let_def)
  have year: "1000 \<le> getFullYear today \<and> getFullYear today \<le> 9999 \<longrightarrow>
      length YYYY = 4 \<and> list_all isDigit YYYY \<and> digitsValue YYYY = getFullYear today"
    unfolding YYYY_def using year_field by blast
  have "MM = padStart 2 CHR ''0'' (decimal (getMonth today + 1))"
    unfolding MM_def using assms by (rule month_field)
  moreover have "length (padStart 2 CHR ''0'' (decimal (getMonth today + 1))) = 2 \<and>
      list_all isDigit (padStart 2 CHR ''0'' (decimal (getMonth today + 1))) \<and>
      digitsValue (padStart 2 CHR ''0'' (decimal (getMonth today + 1))) = getMonth today + 1"
    using assms by (intro padded_decimal) simp_all
  ultimately have month: "length MM = 2 \<and> list_all isDigit MM \<and> digitsValue MM = getMonth today + 1"
    by simp
  have atleast: "3 \<le> length NNN" unfolding NNN_def by (rule length_padStart)
  have three: "length NNN = 3 \<and> list_all isDigit NNN \<and> digitsValue NNN = v"
    if "nextSequence lastNumberStr today = Num v" and "0 \<le> v" and "v \<le> 999" for v
  proof -
    have "toString (Num v) = decimal v" using that(2,3) by (intro toString_small) simp_all
    then have "NNN = padStart 3 CHR ''0'' (decimal v)" using that(1) by (simp add: NNN_def)
    moreover have "length (padStart 3 CHR ''0'' (decimal v)) = 3 \<and>
        list_all isDigit (padStart 3 CHR ''0'' (decimal v)) \<and>
        digitsValue (padStart 3 CHR ''0'' (decimal v)) = v"
      using that(2,3) by (intro padded_decimal) simp_all
    ultimately show ?thesis by simp
  qed
  have more: "NNN = decimal v \<and> 4 \<le> length NNN \<and> list_all isDigit NNN \<and> digitsValue NNN = v"
    if "nextSequence lastNumberStr today = Num v" and "1000 \<le> v" and "v \<le> 2 ^ 53" for v
  proof -
    have "0 \<le> v" using that(2) by simp
    then have "toString (Num v) = decimal v" using that(3) by (rule toString_small)
    then have "NNN = padStart 3 CHR ''0'' (decimal v)" using that(1) by (simp add: NNN_def)
    then show ?thesis using unpadded_decimal [OF that(2)] by simp
  qed
  have negative: "NNN = padStart 3 CHR ''0'' (CHR ''-'' # decimal (- v))"
    if "nextSequence lastNumberStr today = Num v" and "- (2 ^ 53) \<le> v" and "v < 0" for v
  proof -
    have "toString (Num v) = CHR ''-'' # decimal (- v)" using that(3,2) by (rule toString_negative)
    then show ?thesis using that(1) by (simp add: NNN_def)
  qed
  have infinite: "nextSequence lastNumberStr today = PosInfinity \<longrightarrow> NNN = ''Infinity''"
    "nextSequence lastNumberStr today = NegInfinity \<longrightarrow> NNN = ''-Infinity''"
    by (simp_all add: NNN_def padStart_def)
  show ?thesis
    using whole year month atleast three more negative infinite YYYY_def by blast
qed

theorem newQuotationNumber_format_witness:
  "0 \<le> getMonth january2024 \<and> getMonth january2024 < 12 \<and>
   nextSequence (Some ''AEE-202401-007'') january2024 = Num 8 \<and>
   (\<exists>YYYY MM NNN.
      newQuotationNumber (Some ''AEE-202401-007'') january2024 = ''AEE-'' @ YYYY @ MM @ ''-'' @ NNN \<and>
      length YYYY = 4 \<and> length MM = 2 \<and> length NNN = 3 \<and>
      digitsValue YYYY = 2024 \<and> digitsValue MM = 1 \<and> digitsValue NNN = 8)"
proof -
  have m: "0 \<le> getMonth january2024" "getMonth january2024 < 12"
    by (simp_all add: january2024_def)
  have y: "1000 \<le> getFullYear january2024 \<and> getFullYear january2024 \<le> 9999"
    by (simp add: january2024_def)
  have s: "nextSequence (Some ''AEE-202401-007'') january2024 = Num 8" by code_simp
  have vals: "getFullYear january2024 = 2024" "getMonth january2024 + 1 = 1"
    by (simp_all add: january2024_def)
  from newQuotationNumber_format [OF m, of "Some ''AEE-202401-007''"]
  obtain YYYY MM NNN where
    "newQuotationNumber (Some ''AEE-202401-007'') january2024 = ''AEE-'' @ YYYY @ MM @ ''-'' @ NNN"
    "1000 \<le> getFullYear january2024 \<and> getFullYear january2024 \<le> 9999 \<longrightarrow>
       length YYYY = 4 \<and> list_all isDigit YYYY \<and> digitsValue YYYY = getFullYear january2024"
    "length MM = 2 \<and> list_all isDigit MM \<and> digitsValue MM = getMonth january2024 + 1"
    "\<forall>v. nextSequence (Some ''AEE-202401-007'') january2024 = Num v \<and> 0 \<le> v \<and> v \<le> 999 \<longrightarrow>
       length NNN = 3 \<and> list_all isDigit NNN \<and> digitsValue NNN = v"
    by blast
  with y s vals have
    "newQuotationNumber (Some ''AEE-202401-007'') january2024 = ''AEE-'' @ YYYY @ MM @ ''-'' @ NNN \<and>
      length YYYY = 4 \<and> length MM = 2 \<and> length NNN = 3 \<and>
      digitsValue YYYY = 2024 \<and> digitsValue MM = 1 \<and> digitsValue NNN = 8"
    by simp
  then show ?thesis using m s by blast
qed

text \<open>
  The claim as it was stated, a sequence field of exactly three digits also after 999,
  fails at the stored \<open>AEE-202401-999\<close>: the next sequence number is 1000 and the
  sequence field is the four characters \<open>1000\<close>.
\<close>

theorem newQuotationNumber_format_counterexample:
  "nextSequence (Some ''AEE-202401-999'') january2024 = Num 1000 \<and>
   newQuotationNumber (Some ''AEE-202401-999'') january2024 = ''AEE-202401-1000'' \<and>
   substring (newQuotationNumber (Some ''AEE-202401-999'') january2024)
     (length (prefix january2024)) = ''1000'' \<and>
   length (substring (newQuotationNumber (Some ''AEE-202401-999'') january2024)
     (length (prefix january2024))) \<noteq> 3"
  by code_simp

section \<open>Properties of the totals\<close>

lemma clamp_not_negative:
  "greaterOrEqual (mathMax (Finite 0) (orZero x)) (Finite 0) \<and>
   mathMax (Finite 0) (mathMax (Finite 0) (orZero x)) = mathMax (Finite 0) (orZero x)"
  by (cases x) (simp_all add: mathMax_def orZero_def greaterOrEqual_def)

lemma clamp_of_not_positive:
  "\<not> lt (Finite 0) x \<Longrightarrow> mathMax (Finite 0) (orZero x) = Finite 0"
  by (cases x) (simp_all add: mathMax_def orZero_def)

lemma handle_keeps_advance_clamped:
  assumes "greaterOrEqual (advancePercentage q) (Finite 0) \<and>
           mathMax (Finite 0) (advancePercentage q) = advancePercentage q"
  shows "greaterOrEqual (advancePercentage (handle e q)) (Finite 0) \<and>
         mathMax (Finite 0) (advancePercentage (handle e q)) = advancePercentage (handle e q)"
proof (cases e)
  case (AdvanceChange parsed)
  then show ?thesis using clamp_not_negative [of parsed] by (simp add: handleAdvanceChange_def)
next
  case (ClientChange field v)
  then show ?thesis using assms by (cases field) (simp_all add: handleClientChange_def)
next
  case (QuotationInfoChange field v)
  then show ?thesis using assms by (cases field) (simp_all add: handleQuotationInfoChange_def)
next
  case (SaveSignature which dataUrl)
  then show ?thesis using assms by (cases which) (simp_all add: handleSaveSignature_def)
qed (use assms in \<open>simp_all add: handleItemChange_def addNewItem_def removeItem_def
      handleTermsAndConditionsChange_def handleGstChange_def handleLogoChange_def
      handleRemoveLogo_def\<close>)

lemma run_keeps_advance_clamped:
  assumes "greaterOrEqual (advancePercentage q) (Finite 0) \<and>
           mathMax (Finite 0) (advancePercentage q) = advancePercentage q"
  shows "greaterOrEqual (advancePercentage (run events q)) (Finite 0) \<and>
         mathMax (Finite 0) (advancePercentage (run events q)) = advancePercentage (run events q)"
  using assms
proof (induction events arbitrary: q)
  case Nil
  then show ?case by (simp add: run_def)
next
  case (Cons e events)
  have "run (e # events) q = run events (handle e q)" by (simp add: run_def)
  moreover have "greaterOrEqual (advancePercentage (handle e q)) (Finite 0) \<and>
      mathMax (Finite 0) (advancePercentage (handle e q)) = advancePercentage (handle e q)"
    using Cons.prems by (rule handle_keeps_advance_clamped)
  ultimately show ?case using Cons.IH by simp
qed

lemma initialState_advance:
  "advancePercentage (initialState
     (initialQuotation today formattedToday formattedOneMonthLater uuid) lastNumberStr today')
     = Finite 50"
  by (simp add: initialState_def initialQuotation_def)

text \<open>
  C4. A negative advance percentage is clamped to 0 before the totals use it: the clamp
  is in \<open>handleAdvanceChange\<close>, which stores \<open>Math.max(0, _)\<close> of the number entered, and
  the totals read what is stored. For every quotation, whatever its items and tax rate, and
  for every arithmetic, the totals after entering \<open>-10\<close> are exactly the totals after
  entering 0. Every entry that is not above 0 (negative, a zero, NaN) stores the state that
  entering 0 stores, and what the handler stores is \<open>>= 0\<close>. In every state the
  quotation can reach from its initial state, by any sequence of writes, the stored
  advance percentage is \<open>>= 0\<close> and clamping it once more changes nothing.
\<close>

theorem handleAdvanceChange_clamps:
  "computeTotals ar (handleAdvanceChange (Finite (- 10)) q)
     = computeTotals ar (handleAdvanceChange (Finite 0) q) \<and>
   (\<forall>x. \<not> lt (Finite 0) x \<longrightarrow> handleAdvanceChange x q = handleAdvanceChange (Finite 0) q) \<and>
   greaterOrEqual (advancePercentage (handleAdvanceChange parsed q)) (Finite 0) \<and>
   greaterOrEqual (advancePercentage (run events (initialState
       (initialQuotation today formattedToday formattedOneMonthLater uuid) lastNumberStr today)))
     (Finite 0) \<and>
   mathMax (Finite 0) (advancePercentage (run events (initialState
       (initialQuotation today formattedToday formattedOneMonthLater uuid) lastNumberStr today)))
     = advancePercentage (run events (initialState
       (initialQuotation today formattedToday formattedOneMonthLater uuid) lastNumberStr today))"
proof -
  have same: "handleAdvanceChange x q = handleAdvanceChange (Finite 0) q"
    if "\<not> lt (Finite 0) x" for x
  proof -
    have "mathMax (Finite 0) (orZero x) = Finite 0" using that by (rule clamp_of_not_positive)
    moreover have "mathMax (Finite 0) (orZero (Finite 0)) = Finite 0"
      by (simp add: mathMax_def orZero_def)
    ultimately show ?thesis by (simp add: handleAdvanceChange_def)
  qed
  have "\<not> lt (Finite 0) (Finite (- 10))" by simp
  then have "handleAdvanceChange (Finite (- 10)) q = handleAdvanceChange (Finite 0) q"
    by (rule same)
  then have first: "computeTotals ar (handleAdvanceChange (Finite (- 10)) q)
      = computeTotals ar (handleAdvanceChange (Finite 0) q)"
    by simp
  have stored: "greaterOrEqual (advancePercentage (handleAdvanceChange parsed q)) (Finite 0)"
    using clamp_not_negative [of parsed] by (simp add: handleAdvanceChange_def)
  let ?initial = "initialState
       (initialQuotation today formattedToday formattedOneMonthLater uuid) lastNumberStr today"
  have "greaterOrEqual (advancePercentage ?initial) (Finite 0) \<and>
      mathMax (Finite 0) (advancePercentage ?initial) = advancePercentage ?initial"
    by (simp add: initialState_advance greaterOrEqual_def mathMax_def)
  then have "greaterOrEqual (advancePercentage (run events ?initial)) (Finite 0) \<and>
      mathMax (Finite 0) (advancePercentage (run events ?initial))
        = advancePercentage (run events ?initial)"
    by (rule run_keeps_advance_clamped)
  with first same stored show ?thesis by blast
qed

theorem handleAdvanceChange_clamps_witness:
  "\<not> lt (Finite 0) (Finite (- 10)) \<and>
   handleAdvanceChange (Finite (- 10)) oneItemQuotation
     = handleAdvanceChange (Finite 0) oneItemQuotation \<and>
   advancePercentage (handleAdvanceChange (Finite (- 10)) oneItemQuotation) = Finite 0 \<and>
   (\<forall>ar. computeTotals ar (handleAdvanceChange (Finite (- 10)) oneItemQuotation)
      = computeTotals ar (handleAdvanceChange (Finite 0) oneItemQuotation))"
proof -
  have h: "\<not> lt (Finite 0) (Finite (- 10))" by simp
  have same: "handleAdvanceChange (Finite (- 10)) oneItemQuotation
      = handleAdvanceChange (Finite 0) oneItemQuotation"
    using handleAdvanceChange_clamps [where q = oneItemQuotation] h by blast
  have "advancePercentage (handleAdvanceChange (Finite 0) oneItemQuotation) = Finite 0"
    by (simp add: handleAdvanceChange_def mathMax_def orZero_def)
  then show ?thesis using h same by simp
qed

section \<open>Properties of the operations on the items\<close>

lemma filter_absent: "i \<notin> item_id ` set its \<Longrightarrow> filter (\<lambda>item. item_id item \<noteq> i) its = its"
  by (induction its) auto

text \<open>
  C6. \<open>removeItem\<close> changes nothing but the item list. When no item has the identifier,
  the quotation it returns equals the one it was given. When one item has it, the list
  it returns is the list without that item, the others in their order. No item of the
  result has the identifier.
\<close>

theorem removeItem_removes_the_item:
  "(i \<notin> item_id ` set (items q) \<longrightarrow> removeItem i q = q) \<and>
   (\<forall>before it after.
      items q = before @ it # after \<and> item_id it = i \<and>
      i \<notin> item_id ` set before \<and> i \<notin> item_id ` set after
      \<longrightarrow> removeItem i q = q\<lparr>items := before @ after\<rparr>) \<and>
   (\<forall>it \<in> set (items (removeItem i q)). item_id it \<noteq> i)"
proof (intro conjI allI impI)
  assume "i \<notin> item_id ` set (items q)"
  then show "removeItem i q = q" by (simp add: removeItem_def filter_absent)
next
  fix before it after
  assume h: "items q = before @ it # after \<and> item_id it = i \<and>
      i \<notin> item_id ` set before \<and> i \<notin> item_id ` set after"
  then have "filter (\<lambda>item. item_id item \<noteq> i) (items q) = before @ after"
    by (simp add: filter_absent)
  then show "removeItem i q = q\<lparr>items := before @ after\<rparr>" by (simp add: removeItem_def)
next
  show "\<forall>it \<in> set (items (removeItem i q)). item_id it \<noteq> i" by (simp add: removeItem_def)
qed

theorem removeItem_removes_the_item_witness:
  "''item-9'' \<notin> item_id ` set (items threeItemQuotation) \<and>
   removeItem ''item-9'' threeItemQuotation = threeItemQuotation \<and>
   items threeItemQuotation = [venueItem] @ cateringItem # [blankItem] \<and>
   item_id cateringItem = ''item-2'' \<and>
   removeItem ''item-2'' threeItemQuotation = threeItemQuotation\<lparr>items := [venueItem, blankItem]\<rparr>"
proof -
  have absent: "''item-9'' \<notin> item_id ` set (items threeItemQuotation)"
    by (simp add: threeItemQuotation_def venueItem_def cateringItem_def blankItem_def)
  have split: "items threeItemQuotation = [venueItem] @ cateringItem # [blankItem] \<and>
      item_id cateringItem = ''item-2'' \<and>
      ''item-2'' \<notin> item_id ` set [venueItem] \<and> ''item-2'' \<notin> item_id ` set [blankItem]"
    by (simp add: threeItemQuotation_def venueItem_def cateringItem_def blankItem_def)
  have noop: "removeItem ''item-9'' threeItemQuotation = threeItemQuotation"
    using removeItem_removes_the_item [of "''item-9''" threeItemQuotation] absent by blast
  have "removeItem ''item-2'' threeItemQuotation
      = threeItemQuotation\<lparr>items := [venueItem] @ [blankItem]\<rparr>"
    using removeItem_removes_the_item [of "''item-2''" threeItemQuotation] split by blast
  then show ?thesis using absent split noop by simp
qed

lemma item_id_setField: "item_id (setField fv item) = item_id item"
  by (cases fv) simp_all

text \<open>
  C7. \<open>handleItemChange\<close> changes nothing but the item list, keeps its length and the
  identifiers in their order, leaves every item with another identifier as it was, and
  in an item with the identifier replaces the one field addressed by the value given,
  whatever its sign: the description, the quantity or the rate.
\<close>

theorem handleItemChange_replaces_one_field:
  "handleItemChange i fv q = q\<lparr>items := items (handleItemChange i fv q)\<rparr> \<and>
   length (items (handleItemChange i fv q)) = length (items q) \<and>
   map item_id (items (handleItemChange i fv q)) = map item_id (items q) \<and>
   (\<forall>k < length (items q).
      item_id (items q ! k) \<noteq> i \<longrightarrow> items (handleItemChange i fv q) ! k = items q ! k) \<and>
   (\<forall>k < length (items q). \<forall>v.
      item_id (items q ! k) = i \<longrightarrow>
        (fv = Description v \<longrightarrow>
           items (handleItemChange i fv q) ! k = (items q ! k)\<lparr>description := v\<rparr>)) \<and>
   (\<forall>k < length (items q). \<forall>v.
      item_id (items q ! k) = i \<longrightarrow>
        (fv = Quantity v \<longrightarrow>
           items (handleItemChange i fv q) ! k = (items q ! k)\<lparr>quantity := v\<rparr>) \<and>
        (fv = Rate v \<longrightarrow>
           items (handleItemChange i fv q) ! k = (items q ! k)\<lparr>rate := v\<rparr>))"
proof (intro conjI)
  show "handleItemChange i fv q = q\<lparr>items := items (handleItemChange i fv q)\<rparr>"
    by (simp add: handleItemChange_def)
next
  show "length (items (handleItemChange i fv q)) = length (items q)"
    by (simp add: handleItemChange_def)
next
  show "map item_id (items (handleItemChange i fv q)) = map item_id (items q)"
    by (simp add: handleItemChange_def item_id_setField)
next
  show "\<forall>k < length (items q).
      item_id (items q ! k) \<noteq> i \<longrightarrow> items (handleItemChange i fv q) ! k = items q ! k"
    by (simp add: handleItemChange_def)
next
  show "\<forall>k < length (items q). \<forall>v.
      item_id (items q ! k) = i \<longrightarrow>
        (fv = Description v \<longrightarrow>
           items (handleItemChange i fv q) ! k = (items q ! k)\<lparr>description := v\<rparr>)"
    by (simp add: handleItemChange_def)
next
  show "\<forall>k < length (items q). \<forall>v.
      item_id (items q ! k) = i \<longrightarrow>
        (fv = Quantity v \<longrightarrow>
           items (handleItemChange i fv q) ! k = (items q ! k)\<lparr>quantity := v\<rparr>) \<and>
        (fv = Rate v \<longrightarrow>
           items (handleItemChange i fv q) ! k = (items q ! k)\<lparr>rate := v\<rparr>)"
    by (simp add: handleItemChange_def)
qed

theorem handleItemChange_replaces_one_field_witness:
  "(1::nat) < length (items threeItemQuotation) \<and>
   item_id (items threeItemQuotation ! 1) = ''item-2'' \<and>
   items (handleItemChange ''item-2'' (Quantity (Finite (- 3))) threeItemQuotation) ! 1
     = \<lparr>item_id = ''item-2'', description = ''Catering'', quantity = Finite (- 3), rate = Finite 25\<rparr> \<and>
   items (handleItemChange ''item-2'' (Quantity (Finite (- 3))) threeItemQuotation) ! 0 = venueItem"
proof -
  have k1: "(1::nat) < length (items threeItemQuotation)"
    and k0: "(0::nat) < length (items threeItemQuotation)"
    by (simp_all add: threeItemQuotation_def)
  have at1: "item_id (items threeItemQuotation ! 1) = ''item-2''"
    and at0: "item_id (items threeItemQuotation ! 0) \<noteq> ''item-2''"
    by (simp_all add: threeItemQuotation_def cateringItem_def venueItem_def)
  note inst = handleItemChange_replaces_one_field
    [of "''item-2''" "Quantity (Finite (- 3))" threeItemQuotation]
  have "items (handleItemChange ''item-2'' (Quantity (Finite (- 3))) threeItemQuotation) ! 1
      = (items threeItemQuotation ! 1)\<lparr>quantity := Finite (- 3)\<rparr>"
    using inst k1 at1 by blast
  moreover have "items (handleItemChange ''item-2'' (Quantity (Finite (- 3))) threeItemQuotation) ! 0
      = items threeItemQuotation ! 0"
    using inst k0 at0 by blast
  ultimately show ?thesis
    using k1 at1 by (simp add: threeItemQuotation_def cateringItem_def)
qed

section \<open>Properties of the text-generation helper\<close>

text \<open>
  Once the module has loaded, the promise of \<open>generateDescription\<close> is never rejected:
  every path through the function ends in a fulfilled promise or never settles.
\<close>

lemma generateDescription_never_rejects:
  "generateDescription API_KEY generateContent itemName \<noteq> Rejected e"
  by (simp add: generateDescription_def split: promise.splits option.splits)

text \<open>
  C8. The claim: without the API key configuration the helper returns a fixed fallback
  string and never passes an error to its caller. The function has the guard for it, and
  called with no key it is fulfilled with the message that the key is not configured. But
  the module constructs the client with the undefined key before it exports the function:
  with the constructor of the library's browser build that construction throws, so
  importing the module fails with the library's error and no function is exported that
  could return the fallback.
\<close>

theorem geminiService_fails_without_key:
  "geminiService None (browserGoogleGenAI service)
     = Inl (Error ''An API Key must be set when running in a browser'') \<and>
   (\<forall>exported. geminiService None (browserGoogleGenAI service) \<noteq> Inr exported) \<and>
   generateDescription None generateContent itemName = Fulfilled missingKeyMessage"
  by (simp add: geminiService_def browserGoogleGenAI_def generateDescription_def)

section \<open>Properties of the in-progress set\<close>

lemma trim_blank:
  assumes "\<forall>c \<in> set s. isWhiteSpace c"
  shows "trim s = []"
proof -
  have blank: "dropWhile isWhiteSpace s = []" using assms by simp
  show ?thesis unfolding trim_def blank by simp
qed

text \<open>
  C9. When the description is not blank, the part of the handler before the \<open>await\<close>
  adds the identifier to \<open>generatingItems\<close> and calls the helper with the description.
  When the awaited promise settles, fulfilled (with a generated text or a fallback
  message) or rejected, the continuation removes the identifier and nothing else from
  the set, whatever the state has become in the meantime. So after a whole run whose call
  settles the identifier is not in the set.
\<close>

theorem generatingItems_cleared_on_settle:
  "(trim currentDescription \<noteq> [] \<longrightarrow>
      handleGenerateDescription_start i currentDescription st
        = (st\<lparr>generatingItems := insert i (generatingItems st)\<rparr>, Some currentDescription) \<and>
      i \<in> generatingItems (fst (handleGenerateDescription_start i currentDescription st))) \<and>
   (awaited \<noteq> Pending \<longrightarrow>
      generatingItems (fst (handleGenerateDescription_settle i awaited st'))
        = generatingItems st' - {i} \<and>
      i \<notin> generatingItems (fst (handleGenerateDescription_settle i awaited st'))) \<and>
   (trim currentDescription \<noteq> [] \<and>
    generateDescription API_KEY generateContent currentDescription \<noteq> Pending \<longrightarrow>
      i \<notin> generatingItems (fst (handleGenerateDescription API_KEY generateContent meanwhile
             i currentDescription st)))"
proof (intro conjI impI)
  assume "trim currentDescription \<noteq> []"
  then show "handleGenerateDescription_start i currentDescription st
        = (st\<lparr>generatingItems := insert i (generatingItems st)\<rparr>, Some currentDescription)"
    by (simp add: handleGenerateDescription_start_def)
  then show "i \<in> generatingItems (fst (handleGenerateDescription_start i currentDescription st))"
    by simp
next
  assume settled: "awaited \<noteq> Pending"
  then show cleared: "generatingItems (fst (handleGenerateDescription_settle i awaited st'))
        = generatingItems st' - {i}"
    by (cases awaited) (simp_all add: handleGenerateDescription_settle_def finallyBlock_def)
  then show "i \<notin> generatingItems (fst (handleGenerateDescription_settle i awaited st'))"
    by simp
next
  assume h: "trim currentDescription \<noteq> [] \<and>
    generateDescription API_KEY generateContent currentDescription \<noteq> Pending"
  let ?awaited = "generateDescription API_KEY generateContent currentDescription"
  let ?st' = "meanwhile (st\<lparr>generatingItems := insert i (generatingItems st)\<rparr>)"
  have run: "handleGenerateDescription API_KEY generateContent meanwhile i currentDescription st
      = handleGenerateDescription_settle i ?awaited ?st'"
    using h by (simp add: handleGenerateDescription_def handleGenerateDescription_start_def)
  have "generatingItems (fst (handleGenerateDescription_settle i ?awaited ?st'))
      = generatingItems ?st' - {i}"
    using h by (cases ?awaited) (simp_all add: handleGenerateDescription_settle_def finallyBlock_def)
  then show "i \<notin> generatingItems (fst (handleGenerateDescription API_KEY generateContent meanwhile
             i currentDescription st))"
    using run by simp
qed

theorem generatingItems_cleared_on_settle_witness:
  "trim ''Catering'' \<noteq> [] \<and>
   generatingItems (fst (handleGenerateDescription_start ''item-2'' ''Catering'' idleState))
     = {''item-2''} \<and>
   generatingItems (fst (handleGenerateDescription_settle ''item-2''
       (Fulfilled ''Buffet for forty guests.'')
       (fst (handleGenerateDescription_start ''item-2'' ''Catering'' idleState)))) = {} \<and>
   generatingItems (fst (handleGenerateDescription_settle ''item-2''
       (Rejected (Error ''503 Service Unavailable''))
       (fst (handleGenerateDescription_start ''item-2'' ''Catering'' idleState)))) = {} \<and>
   ''item-2'' \<notin> generatingItems (fst (handleGenerateDescription (Some ''secret'') failingService
       (\<lambda>s. s) ''item-2'' ''Catering'' idleState))"
proof -
  let ?started = "fst (handleGenerateDescription_start ''item-2'' ''Catering'' idleState)"
  have nonblank: "trim ''Catering'' \<noteq> []" by (simp add: trim_def isWhiteSpace_def)
  have "handleGenerateDescription_start ''item-2'' ''Catering'' idleState
      = (idleState\<lparr>generatingItems := insert ''item-2'' (generatingItems idleState)\<rparr>,
         Some ''Catering'')"
    using generatingItems_cleared_on_settle
      [where currentDescription = "''Catering''" and i = "''item-2''" and st = idleState]
      nonblank by blast
  then have started: "generatingItems ?started = {''item-2''}"
    by (simp add: idleState_def)
  have "generatingItems (fst (handleGenerateDescription_settle ''item-2''
       (Fulfilled ''Buffet for forty guests.'') ?started)) = generatingItems ?started - {''item-2''}"
    using generatingItems_cleared_on_settle
      [where awaited = "Fulfilled ''Buffet for forty guests.''" and i = "''item-2''"
         and st' = ?started]
    by blast
  moreover have "generatingItems (fst (handleGenerateDescription_settle ''item-2''
       (Rejected (Error ''503 Service Unavailable'')) ?started))
        = generatingItems ?started - {''item-2''}"
    using generatingItems_cleared_on_settle
      [where awaited = "Rejected (Error ''503 Service Unavailable'')" and i = "''item-2''"
         and st' = ?started]
    by blast
  moreover have "generateDescription (Some ''secret'') failingService ''Catering'' \<noteq> Pending"
    by (simp add: generateDescription_def failingService_def)
  then have "''item-2'' \<notin> generatingItems (fst (handleGenerateDescription (Some ''secret'')
       failingService (\<lambda>s. s) ''item-2'' ''Catering'' idleState))"
    using generatingItems_cleared_on_settle
      [where currentDescription = "''Catering''" and i = "''item-2''" and st = idleState
         and API_KEY = "Some ''secret''" and generateContent = failingService
         and meanwhile = "\<lambda>s. s"]
      nonblank by blast
  ultimately show ?thesis using nonblank started by simp
qed

text \<open>
  C10. When the description passed to the handler is empty or has only white space, the
  handler returns at once: the state (the quotation and the in-progress set) is the one
  it was given and the helper is not called.
\<close>

theorem blank_description_is_noop:
  assumes "\<forall>c \<in> set currentDescription. isWhiteSpace c"
  shows "handleGenerateDescription_start i currentDescription st = (st, None) \<and>
         handleGenerateDescription API_KEY generateContent meanwhile i currentDescription st
           = (st, Fulfilled ())"
proof -
  have "trim currentDescription = []" using assms by (rule trim_blank)
  then have "handleGenerateDescription_start i currentDescription st = (st, None)"
    by (simp add: handleGenerateDescription_start_def)
  then show ?thesis by (simp add: handleGenerateDescription_def)
qed

theorem blank_description_is_noop_witness:
  "isWhiteSpace CHR '' '' \<and> isWhiteSpace (CHR 0x09) \<and>
   handleGenerateDescription_start ''item-3'' [CHR '' '', CHR 0x09, CHR '' ''] idleState
     = (idleState, None) \<and>
   handleGenerateDescription_start ''item-3'' [] idleState = (idleState, None)"
proof -
  have space: "isWhiteSpace CHR '' ''" and tab: "isWhiteSpace (CHR 0x09)"
    by (simp_all add: isWhiteSpace_def)
  then have blank: "\<forall>c \<in> set [CHR '' '', CHR 0x09, CHR '' '']. isWhiteSpace c"
    by simp
  have empty: "\<forall>c \<in> set ([] :: string). isWhiteSpace c" by simp
  from blank_description_is_noop [OF blank] blank_description_is_noop [OF empty] space tab
  show ?thesis by blast
qed

end
